theory Spec2Isabelle
  imports Main "HOL-Library.AList" "HOL-Library.Sublist"
begin

section \<open>Data model\<close>

text \<open>
  The three content types of \<^verbatim>\<open>class ContentType(Enum)\<close>. The enumeration is closed, so
  the \<^verbatim>\<open>raise ValueError\<close> branches of \<^verbatim>\<open>get_content_path\<close> and
  \<^verbatim>\<open>get_content_dict\<close> cannot be reached and have no counterpart below.
\<close>

datatype ContentType = MOD | RESOURCE_PACK | SHADER_PACK

text \<open>The value of each member of the enumeration (\<^verbatim>\<open>content_type.value\<close>).\<close>

fun ct_value :: "ContentType \<Rightarrow> string" where
  "ct_value MOD = ''mod''"
| "ct_value RESOURCE_PACK = ''resourcepack''"
| "ct_value SHADER_PACK = ''shader''"

text \<open>
  What the registry returns, reduced to the keys the program reads: a project
  (\<^verbatim>\<open>title\<close>), a version (\<^verbatim>\<open>version_number\<close>, \<^verbatim>\<open>date_published\<close>,
  \<^verbatim>\<open>files\<close>) and a file (\<^verbatim>\<open>url\<close>, \<^verbatim>\<open>filename\<close>, \<^verbatim>\<open>primary\<close>).
  A missing \<^verbatim>\<open>files\<close> key and an empty list are both the empty list
  (\<^verbatim>\<open>version.get("files")\<close> is falsy for both); a missing or falsy \<^verbatim>\<open>primary\<close> key
  is \<open>False\<close>.
\<close>

record project =
  title :: string

record version_file =
  url :: string
  file_filename :: string
  primary :: bool

record version =
  version_number :: string
  date_published :: string
  files :: "version_file list"

text \<open>One ledger entry: the dictionary stored under a project id.\<close>

record info =
  name :: string
  version :: string
  filename :: string
  installed_at :: string

text \<open>
  A Python dictionary keeps insertion order, and the order of \<^verbatim>\<open>content_dict.items()\<close>
  decides which entry a selection number means. A bucket is therefore an association list:
  \<^verbatim>\<open>d[k] = v\<close> is \<^const>\<open>AList.update\<close> (in place for a key that is present, at the end
  otherwise), \<^verbatim>\<open>del d[k]\<close> is \<^const>\<open>AList.delete\<close>, lookup is \<^const>\<open>map_of\<close>.
\<close>

type_synonym content_dict = "(string \<times> info) list"

text \<open>
  The ledger \<^verbatim>\<open>self.installed_content\<close>: one bucket for each of the keys
  \<^verbatim>\<open>"mods"\<close>, \<^verbatim>\<open>"resourcepacks"\<close> and \<^verbatim>\<open>"shaderpacks"\<close>.
\<close>

record ledger =
  mods :: content_dict
  resourcepacks :: content_dict
  shaderpacks :: content_dict

section \<open>The registry client: building the search request\<close>

text \<open>
  \<^verbatim>\<open>ModrinthAPI.search\<close>, up to the HTTP request. The first \<^verbatim>\<open>if/elif\<close> chain assigns
  \<^verbatim>\<open>project_type\<close>, and in its last branch also \<^verbatim>\<open>facets\<close>; it is modelled as the pair
  of both locals (\<open>None\<close> for a local not yet bound).
\<close>

fun search_project_type :: "ContentType \<Rightarrow> string option \<times> string list list option" where
  "search_project_type MOD = (Some ''mod'', None)"
| "search_project_type RESOURCE_PACK = (Some ''resourcepack'', None)"
| "search_project_type SHADER_PACK = (None, Some [[''project_type:shader'']])"

text \<open>
  \<^verbatim>\<open>facets = []\<close> then rebinds \<^verbatim>\<open>facets\<close> whatever the chain stored there.
  \<^verbatim>\<open>if project_type:\<close> and \<^verbatim>\<open>if game_versions:\<close> test truthiness: neither \<open>None\<close> nor
  empty.
\<close>

definition search_facets :: "ContentType \<Rightarrow> string list option \<Rightarrow> string list list" where
  "search_facets content_type game_versions =
     (let (project_type, facets) = search_project_type content_type;
          facets = [];
          facets = (case project_type of
                      None \<Rightarrow> facets
                    | Some p \<Rightarrow> if p \<noteq> [] then facets @ [[''project_type:'' @ p]] else facets);
          facets = (case game_versions of
                      None \<Rightarrow> facets
                    | Some vs \<Rightarrow> if vs \<noteq> [] then facets @ [map (\<lambda>v. ''versions:'' @ v) vs]
                                 else facets)
      in facets)"

text \<open>
  The \<^verbatim>\<open>params\<close> dictionary of the request. \<^verbatim>\<open>json.dumps(facets) if facets else None\<close>:
  an empty facet list sends no \<^verbatim>\<open>facets\<close> parameter at all. The facet list is kept as
  a list (its JSON text is the serialiser's business).
\<close>

record search_params =
  query :: string
  limit :: int
  facets :: "string list list option"

definition search_request :: "string \<Rightarrow> ContentType \<Rightarrow> string list option \<Rightarrow> int \<Rightarrow> search_params" where
  "search_request q content_type game_versions lim =
     (let fs = search_facets content_type game_versions
      in \<lparr>query = q, limit = lim, facets = (if fs \<noteq> [] then Some fs else None)\<rparr>)"

section \<open>Primary-file selection\<close>

text \<open>
  \<^verbatim>\<open>next((f for f in files if f.get("primary")), files[0])\<close>. The default
  \<^verbatim>\<open>files[0]\<close> is evaluated before \<^verbatim>\<open>next\<close> runs, so an empty list raises
  \<^verbatim>\<open>IndexError\<close> (\<open>None\<close> here); both callers return earlier when the list is empty.
\<close>

fun primary_file :: "version_file list \<Rightarrow> version_file option" where
  "primary_file [] = None"
| "primary_file (f0 # fs) =
     (case find primary (f0 # fs) of Some f \<Rightarrow> Some f | None \<Rightarrow> Some f0)"

section \<open>Strings\<close>

text \<open>
  A Python string is a sequence of Unicode code points. It is modelled by its UTF-8 bytes:
  two strings are equal exactly when their bytes are, and since no encoded code point
  begins inside another one, \<^verbatim>\<open>q in s\<close> holds exactly when the bytes of \<open>q\<close> occur in
  the bytes of \<open>s\<close>.

  \<^verbatim>\<open>str.lower()\<close> follows the Unicode tables of the interpreter. It is not code of the
  program and is taken from the surroundings (\<open>str_lower\<close> below). What is known of it
  on text of ASCII characters only: the letters \<open>A\<close> to \<open>Z\<close> move to \<open>a\<close> to \<open>z\<close>, every
  other character stays. That is \<open>ascii_lower\<close>.
\<close>

definition ascii_uppercase :: string where
  "ascii_uppercase = ''ABCDEFGHIJKLMNOPQRSTUVWXYZ''"

definition ascii_lowercase :: string where
  "ascii_lowercase = ''abcdefghijklmnopqrstuvwxyz''"

definition ascii_lower_char :: "char \<Rightarrow> char" where
  "ascii_lower_char c =
     (case map_of (zip ascii_uppercase ascii_lowercase) c of Some l \<Rightarrow> l | None \<Rightarrow> c)"

definition ascii_lower :: "string \<Rightarrow> string" where
  "ascii_lower s = map ascii_lower_char s"

text \<open>An ASCII character is a byte whose highest bit is not set.\<close>

definition is_ascii :: "string \<Rightarrow> bool" where
  "is_ascii s = (\<forall>c\<in>set s. \<not> digit7 c)"

text \<open>
  \<^verbatim>\<open>q in s\<close> on two strings: \<open>q\<close> occurs in \<open>s\<close> as a contiguous run, searched from
  the left.
\<close>

fun starts_with :: "string \<Rightarrow> string \<Rightarrow> bool" where
  "starts_with [] s = True"
| "starts_with (c # q) [] = False"
| "starts_with (c # q) (d # s) = (c = d \<and> starts_with q s)"

fun str_in :: "string \<Rightarrow> string \<Rightarrow> bool" where
  "str_in q [] = (q = [])"
| "str_in q (d # s) = (starts_with q (d # s) \<or> str_in q s)"

section \<open>The world the program runs in\<close>

text \<open>
  The three content directories (\<^verbatim>\<open>self.mods_path\<close>, \<^verbatim>\<open>self.resourcepacks_path\<close>,
  \<^verbatim>\<open>self.shaderpacks_path\<close>).

  A \<^verbatim>\<open>Path\<close> is kept as \<^verbatim>\<open>pathlib\<close> compares it: the list of its parts after
  normalisation. \<^verbatim>\<open>pathlib\<close> drops repeated separators and \<^verbatim>\<open>.\<close> parts, lets an
  absolute right operand of \<^verbatim>\<open>/\<close> replace the left one, and on Windows compares
  without regard to case. So \<^verbatim>\<open>content_path / filename\<close> depends on the platform and is
  taken from the surroundings (\<open>joinpath\<close> below); two file names that differ as
  strings can give the same path.
\<close>

datatype dir = mods_path | resourcepacks_path | shaderpacks_path

type_synonym path = "string list"

text \<open>What the program prints, one constructor per \<^verbatim>\<open>print\<close> call of the source.\<close>

datatype message =
    ErrorFetchingProject
  | ErrorFetchingVersions
  | ErrorDownloadingFile
  | ConfigCorrupted
  | ProjectNotFound
  | Installing string
  | NoCompatibleVersions
  | NoFilesAvailable
  | Downloading string
  | SuccessfullyInstalled string path
  | FailedToInstall string
  | NoMatchingFound ContentType string
  | MultipleMatches "(string \<times> string) list"
  | InvalidSelection
  | Removed string path
  | ErrorRemovingFile
  | NoneInstalledToUpdate ContentType
  | CheckingForUpdates nat ContentType
  | Checking string
  | NoVersionsFound
  | AlreadyUpToDate string
  | UpdateAvailable string string
  | CouldNotRemoveOldFile path
  | UpdatedSuccessfully
  | UpdateFailed

text \<open>
  The effects of a run, in order: a line printed, a call of \<^verbatim>\<open>download_file\<close>, a call of
  \<^verbatim>\<open>os.remove\<close>, a call of \<^verbatim>\<open>_save_installed_content\<close> with what it wrote.
\<close>

datatype event =
    Print message
  | Download string path
  | Remove path
  | Save ledger

text \<open>
  The configuration file \<^verbatim>\<open>minecraft_manager_config.json\<close>, by what
  \<^verbatim>\<open>open(self.config_path, 'r')\<close> and \<^verbatim>\<open>json.load(f)\<close> do on it: there is no file;
  the file holds a ledger (\<^verbatim>\<open>json.dump\<close> followed by \<^verbatim>\<open>json.load\<close> gives the
  dictionary back, order included); or reading it raises. What it raises depends on the
  content: \<^verbatim>\<open>JSONDecodeError\<close> for text that is not JSON, \<^verbatim>\<open>UnicodeDecodeError\<close> for
  bytes that are no text in the encoding of the platform, \<^verbatim>\<open>RecursionError\<close> for
  brackets nested too deep for the parser, \<^verbatim>\<open>OSError\<close> when the file cannot be opened.
\<close>

datatype read_error = JSONDecodeError | UnicodeDecodeError | RecursionError | OSError

datatype config_file = Missing | Raises read_error | Holds ledger

record world =
  installed_content :: ledger
  config :: config_file
  disk :: "path set"
  trace :: "event list"

text \<open>
  What the surroundings answer. A registry request either fails with
  \<^verbatim>\<open>requests.RequestException\<close> or returns the parsed body. A download completes, fails
  before the destination is opened (\<^verbatim>\<open>raise_for_status\<close>), or breaks while the chunks
  are written, which leaves a partial file. \<^verbatim>\<open>os.remove\<close> on an existing file either
  removes it or raises \<^verbatim>\<open>OSError\<close>. The reply typed at the one prompt is a number or
  makes \<^verbatim>\<open>int\<close> raise \<^verbatim>\<open>ValueError\<close>. \<open>str_lower\<close> is \<^verbatim>\<open>str.lower()\<close> and
  \<open>joinpath\<close> is the operator \<^verbatim>\<open>/\<close> of \<^verbatim>\<open>pathlib\<close> on a content directory and a
  file name. Writing the configuration file and opening a download destination are taken
  to succeed.
\<close>

datatype 'a response = RequestException | Body 'a

datatype download_outcome = Completed | RefusedRequest | BrokenStream

datatype reply = NotANumber | Number int

record env =
  project_response :: "string \<Rightarrow> project response"
  versions_response :: "string \<Rightarrow> string option \<Rightarrow> version list response"
  download_response :: "string \<Rightarrow> path \<Rightarrow> download_outcome"
  remove_raises :: "path \<Rightarrow> bool"
  typed :: reply
  str_lower :: "string \<Rightarrow> string"
  joinpath :: "dir \<Rightarrow> string \<Rightarrow> path"

definition emit :: "event \<Rightarrow> world \<Rightarrow> world" where
  "emit e w = w\<lparr>trace := trace w @ [e]\<rparr>"

definition print :: "message \<Rightarrow> world \<Rightarrow> world" where
  "print m w = emit (Print m) w"

section \<open>The registry client: requests\<close>

text \<open>
  \<^verbatim>\<open>ModrinthAPI.get_project\<close>: the body, or \<^verbatim>\<open>{}\<close> after printing the error.
  \<open>None\<close> is the empty dictionary, the only falsy result.
\<close>

definition get_project :: "env \<Rightarrow> string \<Rightarrow> world \<Rightarrow> project option \<times> world" where
  "get_project env project_id w =
     (case project_response env project_id of
        Body p \<Rightarrow> (Some p, w)
      | RequestException \<Rightarrow> (None, print ErrorFetchingProject w))"

text \<open>
  \<^verbatim>\<open>ModrinthAPI.get_versions\<close>: \<^verbatim>\<open>if game_version:\<close> puts the filter into
  \<^verbatim>\<open>params\<close> only when it is neither \<open>None\<close> nor empty; a failed request prints the
  error and gives \<^verbatim>\<open>[]\<close>.
\<close>

definition version_params :: "string option \<Rightarrow> string option" where
  "version_params game_version =
     (case game_version of
        None \<Rightarrow> None
      | Some g \<Rightarrow> if g \<noteq> [] then Some g else None)"

definition get_versions :: "env \<Rightarrow> string \<Rightarrow> string option \<Rightarrow> world \<Rightarrow> version list \<times> world" where
  "get_versions env project_id game_version w =
     (case versions_response env project_id (version_params game_version) of
        Body vs \<Rightarrow> (vs, w)
      | RequestException \<Rightarrow> ([], print ErrorFetchingVersions w))"

text \<open>\<^verbatim>\<open>ModrinthAPI.download_file\<close>: \<open>True\<close> when the file was written in full.\<close>

definition download_file :: "env \<Rightarrow> string \<Rightarrow> path \<Rightarrow> world \<Rightarrow> bool \<times> world" where
  "download_file env u destination w =
     (let w = emit (Download u destination) w
      in case download_response env u destination of
           Completed \<Rightarrow> (True, w\<lparr>disk := insert destination (disk w)\<rparr>)
         | RefusedRequest \<Rightarrow> (False, print ErrorDownloadingFile w)
         | BrokenStream \<Rightarrow>
             (False, print ErrorDownloadingFile (w\<lparr>disk := insert destination (disk w)\<rparr>)))"

section \<open>The manager\<close>

subsection \<open>Loading and saving the ledger\<close>

definition default_structure :: ledger where
  "default_structure = \<lparr>mods = [], resourcepacks = [], shaderpacks = []\<rparr>"

text \<open>
  \<^verbatim>\<open>_load_installed_content\<close>: the parsed file when it exists and parses; the default
  structure when it does not exist; the warning and the default structure when
  \<^verbatim>\<open>json.load\<close> raises \<^verbatim>\<open>JSONDecodeError\<close>. The \<^verbatim>\<open>try\<close> has no other
  \<^verbatim>\<open>except\<close> clause: any other error leaves the function as an exception (\<open>Inl\<close>).
\<close>

definition load_installed_content :: "world \<Rightarrow> read_error + ledger \<times> world" where
  "load_installed_content w =
     (case config w of
        Holds l \<Rightarrow> Inr (l, w)
      | Raises JSONDecodeError \<Rightarrow> Inr (default_structure, print ConfigCorrupted w)
      | Raises e \<Rightarrow> Inl e
      | Missing \<Rightarrow> Inr (default_structure, w))"

text \<open>
  \<^verbatim>\<open>__init__\<close>, as far as the ledger goes:
  \<^verbatim>\<open>self.installed_content = self._load_installed_content()\<close>. Nothing in
  \<^verbatim>\<open>__init__\<close> or \<^verbatim>\<open>main\<close> catches the exception: the process ends with it.
\<close>

definition init :: "world \<Rightarrow> read_error + world" where
  "init w =
     (case load_installed_content w of
        Inl e \<Rightarrow> Inl e
      | Inr (l, w) \<Rightarrow> Inr (w\<lparr>installed_content := l\<rparr>))"

definition save_installed_content :: "world \<Rightarrow> world" where
  "save_installed_content w =
     emit (Save (installed_content w)) (w\<lparr>config := Holds (installed_content w)\<rparr>)"

subsection \<open>Directory and bucket of a content type\<close>

fun get_content_path :: "ContentType \<Rightarrow> dir" where
  "get_content_path MOD = mods_path"
| "get_content_path RESOURCE_PACK = resourcepacks_path"
| "get_content_path SHADER_PACK = shaderpacks_path"

fun get_content_dict :: "ledger \<Rightarrow> ContentType \<Rightarrow> content_dict" where
  "get_content_dict l MOD = mods l"
| "get_content_dict l RESOURCE_PACK = resourcepacks l"
| "get_content_dict l SHADER_PACK = shaderpacks l"

text \<open>
  \<^verbatim>\<open>get_content_dict\<close> returns the bucket itself, not a copy: \<^verbatim>\<open>content_dict[k] = v\<close>
  and \<^verbatim>\<open>del content_dict[k]\<close> change the ledger. The model writes the changed bucket
  back into the place it was read from.
\<close>

fun put_content_dict :: "ContentType \<Rightarrow> content_dict \<Rightarrow> ledger \<Rightarrow> ledger" where
  "put_content_dict MOD d l = l\<lparr>mods := d\<rparr>"
| "put_content_dict RESOURCE_PACK d l = l\<lparr>resourcepacks := d\<rparr>"
| "put_content_dict SHADER_PACK d l = l\<lparr>shaderpacks := d\<rparr>"

definition set_item :: "ContentType \<Rightarrow> string \<Rightarrow> info \<Rightarrow> world \<Rightarrow> world" where
  "set_item content_type project_id i w =
     w\<lparr>installed_content :=
         put_content_dict content_type
           (AList.update project_id i (get_content_dict (installed_content w) content_type))
           (installed_content w)\<rparr>"

definition del_item :: "ContentType \<Rightarrow> string \<Rightarrow> world \<Rightarrow> world" where
  "del_item content_type project_id w =
     w\<lparr>installed_content :=
         put_content_dict content_type
           (AList.delete project_id (get_content_dict (installed_content w) content_type))
           (installed_content w)\<rparr>"

subsection \<open>install\<close>

text \<open>
  \<^verbatim>\<open>MinecraftManager.install\<close>; \<open>v\<close> is the local \<^verbatim>\<open>version\<close> and \<open>fname\<close>
  the local \<^verbatim>\<open>filename\<close>. The branch \<open>None\<close> of \<^const>\<open>primary_file\<close> stands for
  the \<^verbatim>\<open>IndexError\<close> of \<^verbatim>\<open>version["files"][0]\<close>; the test before it keeps the
  list non-empty, so the branch is never taken.
\<close>

definition install :: "env \<Rightarrow> string \<Rightarrow> ContentType \<Rightarrow> string option \<Rightarrow> world \<Rightarrow> world" where
  "install env project_id content_type game_version w =
     (case get_project env project_id w of
        (None, w) \<Rightarrow> print ProjectNotFound w
      | (Some project, w) \<Rightarrow>
          (let w = print (Installing (title project)) w
           in case get_versions env project_id game_version w of
                ([], w) \<Rightarrow> print NoCompatibleVersions w
              | (v # _, w) \<Rightarrow>
                  if files v = [] then print NoFilesAvailable w
                  else
                    (case primary_file (files v) of
                       None \<Rightarrow> w
                     | Some pf \<Rightarrow>
                         (let content_path = get_content_path content_type;
                              fname = file_filename pf;
                              destination = joinpath env content_path fname;
                              w = print (Downloading fname) w
                          in case download_file env (url pf) destination w of
                               (True, w) \<Rightarrow>
                                 save_installed_content
                                   (set_item content_type project_id
                                      \<lparr>name = title project,
                                       version = version_number v,
                                       filename = fname,
                                       installed_at = date_published v\<rparr>
                                      (print (SuccessfullyInstalled (title project) destination) w))
                             | (False, w) \<Rightarrow> print (FailedToInstall (title project)) w))))"

subsection \<open>The name filter\<close>

text \<open>
  The comprehension that \<^verbatim>\<open>uninstall\<close> and \<^verbatim>\<open>update\<close> both contain:
  \<^verbatim>\<open>[(pid, info) for pid, info in content_dict.items()
     if name_query.lower() in info["name"].lower()]\<close>.
\<close>

definition name_matches :: "env \<Rightarrow> string \<Rightarrow> info \<Rightarrow> bool" where
  "name_matches env name_query i =
     str_in (str_lower env name_query) (str_lower env (name i))"

definition find_matches :: "env \<Rightarrow> string \<Rightarrow> content_dict \<Rightarrow> content_dict" where
  "find_matches env name_query content_dict =
     filter (\<lambda>(pid, i). name_matches env name_query i) content_dict"

subsection \<open>uninstall\<close>

text \<open>
  From the matches to the one entry to remove: nothing for no match; the prompt for several
  (\<^verbatim>\<open>1 <= selection <= len(matches)\<close> picks \<^verbatim>\<open>matches[selection - 1]\<close>, any other number
  returns silently, a reply that is no number prints a message and returns); the only match
  otherwise.
\<close>

fun resolve :: "env \<Rightarrow> ContentType \<Rightarrow> string \<Rightarrow> content_dict \<Rightarrow> world
                 \<Rightarrow> (string \<times> info) option \<times> world" where
  "resolve env content_type name_query [] w =
     (None, print (NoMatchingFound content_type name_query) w)"
| "resolve env content_type name_query [m] w = (Some m, w)"
| "resolve env content_type name_query matches w =
     (let w = print (MultipleMatches (map (\<lambda>(pid, i). (name i, version i)) matches)) w
      in case typed env of
           NotANumber \<Rightarrow> (None, print InvalidSelection w)
         | Number selection \<Rightarrow>
             if 1 \<le> selection \<and> selection \<le> int (length matches)
             then (Some (matches ! nat (selection - 1)), w)
             else (None, w))"

text \<open>
  The rest of \<^verbatim>\<open>uninstall\<close> for the entry chosen: remove the file if it exists (returning
  when \<^verbatim>\<open>os.remove\<close> raises), then delete the entry and save.
\<close>

definition remove_entry :: "env \<Rightarrow> ContentType \<Rightarrow> string \<times> info \<Rightarrow> world \<Rightarrow> world" where
  "remove_entry env content_type m w =
     (case m of (project_id, i) \<Rightarrow>
        (let file_path = joinpath env (get_content_path content_type) (filename i)
         in if file_path \<in> disk w then
              (let w = emit (Remove file_path) w
               in if remove_raises env file_path then print ErrorRemovingFile w
                  else save_installed_content
                         (del_item content_type project_id
                            (print (Removed (name i) file_path)
                               (w\<lparr>disk := disk w - {file_path}\<rparr>))))
            else save_installed_content (del_item content_type project_id w)))"

definition uninstall :: "env \<Rightarrow> string \<Rightarrow> ContentType \<Rightarrow> world \<Rightarrow> world" where
  "uninstall env name_query content_type w =
     (let content_dict = get_content_dict (installed_content w) content_type;
          matches = find_matches env name_query content_dict
      in case resolve env content_type name_query matches w of
           (None, w) \<Rightarrow> w
         | (Some m, w) \<Rightarrow> remove_entry env content_type m w)"

subsection \<open>update\<close>

text \<open>
  The body of the loop \<^verbatim>\<open>for project_id, info in items_to_check\<close>; \<open>i\<close> is the
  local \<^verbatim>\<open>info\<close>, the entry as it was when the list was built. The stale file is
  removed only when its path differs from the new one (\<^verbatim>\<open>old_path != new_path\<close>, a
  comparison of paths, not of file names) and it exists; an \<^verbatim>\<open>OSError\<close> there prints
  the warning and goes on to the record.
\<close>

definition remove_old :: "env \<Rightarrow> path \<Rightarrow> path \<Rightarrow> world \<Rightarrow> world" where
  "remove_old env old_path new_path w =
     (if old_path \<noteq> new_path \<and> old_path \<in> disk w then
        (let w = emit (Remove old_path) w
         in if remove_raises env old_path then print (CouldNotRemoveOldFile old_path) w
            else w\<lparr>disk := disk w - {old_path}\<rparr>)
      else w)"

definition update_item :: "env \<Rightarrow> ContentType \<Rightarrow> string \<times> info \<Rightarrow> world \<Rightarrow> world" where
  "update_item env content_type item w =
     (case item of (project_id, i) \<Rightarrow>
        (let w = print (Checking (name i)) w
         in case get_versions env project_id None w of
              ([], w) \<Rightarrow> print NoVersionsFound w
            | (latest # _, w) \<Rightarrow>
                if version_number latest = version i then print (AlreadyUpToDate (version i)) w
                else
                  (let w = print (UpdateAvailable (version i) (version_number latest)) w
                   in if files latest = [] then print NoFilesAvailable w
                      else
                        (case primary_file (files latest) of
                           None \<Rightarrow> w
                         | Some pf \<Rightarrow>
                             (let content_path = get_content_path content_type;
                                  old_path = joinpath env content_path (filename i);
                                  new_filename = file_filename pf;
                                  new_path = joinpath env content_path new_filename
                              in case download_file env (url pf) new_path w of
                                   (True, w) \<Rightarrow>
                                     print UpdatedSuccessfully
                                       (save_installed_content
                                          (set_item content_type project_id
                                             \<lparr>name = name i,
                                              version = version_number latest,
                                              filename = new_filename,
                                              installed_at = date_published latest\<rparr>
                                             (remove_old env old_path new_path w)))
                                 | (False, w) \<Rightarrow> print UpdateFailed w)))))"

fun update_loop :: "env \<Rightarrow> ContentType \<Rightarrow> content_dict \<Rightarrow> world \<Rightarrow> world" where
  "update_loop env content_type [] w = w"
| "update_loop env content_type (item # items) w =
     update_loop env content_type items (update_item env content_type item w)"

text \<open>
  \<^verbatim>\<open>update\<close> for one content type. \<^verbatim>\<open>if name_query:\<close> filters only for a query that is
  neither \<open>None\<close> nor empty; \<^verbatim>\<open>list(content_dict.items())\<close> is a copy of the bucket
  taken before the loop.
\<close>

definition update_type :: "env \<Rightarrow> ContentType \<Rightarrow> string option \<Rightarrow> world \<Rightarrow> world" where
  "update_type env content_type name_query w =
     (let content_dict = get_content_dict (installed_content w) content_type;
          checked = (\<lambda>items_to_check w.
             if items_to_check = [] then print (NoneInstalledToUpdate content_type) w
             else update_loop env content_type items_to_check
                    (print (CheckingForUpdates (length items_to_check) content_type) w));
          filtered = (\<lambda>q.
             let matches = find_matches env q content_dict
             in if matches = [] then print (NoMatchingFound content_type q) w
                else checked matches w)
      in case name_query of
           None \<Rightarrow> checked content_dict w
         | Some q \<Rightarrow> if q \<noteq> [] then filtered q else checked content_dict w)"

text \<open>
  \<^verbatim>\<open>MinecraftManager.update\<close>: without a content type, one call for each member of the
  enumeration in its order, with the same query.
\<close>

fun update :: "env \<Rightarrow> ContentType option \<Rightarrow> string option \<Rightarrow> world \<Rightarrow> world" where
  "update env None name_query w =
     update_type env SHADER_PACK name_query
       (update_type env RESOURCE_PACK name_query
          (update_type env MOD name_query w))"
| "update env (Some content_type) name_query w = update_type env content_type name_query w"

section \<open>Reading the trace\<close>

text \<open>The downloads requested, the files \<^verbatim>\<open>os.remove\<close> was called on and the ledgers
  written to the configuration file, each in order.\<close>

fun download_of :: "event \<Rightarrow> (string \<times> path) list" where
  "download_of (Download u d) = [(u, d)]"
| "download_of _ = []"

fun remove_of :: "event \<Rightarrow> path list" where
  "remove_of (Remove f) = [f]"
| "remove_of _ = []"

fun save_of :: "event \<Rightarrow> ledger list" where
  "save_of (Save l) = [l]"
| "save_of _ = []"

definition downloads :: "world \<Rightarrow> (string \<times> path) list" where
  "downloads w = concat (map download_of (trace w))"

definition removes :: "world \<Rightarrow> path list" where
  "removes w = concat (map remove_of (trace w))"

definition saves :: "world \<Rightarrow> ledger list" where
  "saves w = concat (map save_of (trace w))"

section \<open>A small registry and installation\<close>

text \<open>
  Concrete inputs on which the theorems below are tried: project \<open>proj123\<close> with one
  version \<open>2.0\<close> of two files, the second flagged primary; an installation that holds
  version \<open>1.0\<close> of it as a mod, and one shader pack.

  The lowering of these surroundings covers ASCII and the letters of the Latin-1
  supplement, whose capitals U+00C0 to U+00DE (without U+00D7, the multiplication sign)
  are the bytes \<open>C3 80\<close> to \<open>C3 9E\<close> and whose small letters lie \<open>0x20\<close> higher.
\<close>

definition latin_upper :: string where
  "latin_upper =
     [CHR 0x80, CHR 0x81, CHR 0x82, CHR 0x83, CHR 0x84, CHR 0x85, CHR 0x86, CHR 0x87,
      CHR 0x88, CHR 0x89, CHR 0x8A, CHR 0x8B, CHR 0x8C, CHR 0x8D, CHR 0x8E, CHR 0x8F,
      CHR 0x90, CHR 0x91, CHR 0x92, CHR 0x93, CHR 0x94, CHR 0x95, CHR 0x96,
      CHR 0x98, CHR 0x99, CHR 0x9A, CHR 0x9B, CHR 0x9C, CHR 0x9D, CHR 0x9E]"

definition latin_lower :: string where
  "latin_lower =
     [CHR 0xA0, CHR 0xA1, CHR 0xA2, CHR 0xA3, CHR 0xA4, CHR 0xA5, CHR 0xA6, CHR 0xA7,
      CHR 0xA8, CHR 0xA9, CHR 0xAA, CHR 0xAB, CHR 0xAC, CHR 0xAD, CHR 0xAE, CHR 0xAF,
      CHR 0xB0, CHR 0xB1, CHR 0xB2, CHR 0xB3, CHR 0xB4, CHR 0xB5, CHR 0xB6,
      CHR 0xB8, CHR 0xB9, CHR 0xBA, CHR 0xBB, CHR 0xBC, CHR 0xBD, CHR 0xBE]"

fun ex_lower :: "string \<Rightarrow> string" where
  "ex_lower [] = []"
| "ex_lower [c] = [ascii_lower_char c]"
| "ex_lower (c # d # s) =
     (if c = CHR 0xC3
      then (case map_of (zip latin_upper latin_lower) d of
              Some l \<Rightarrow> c # l # ex_lower s
            | None \<Rightarrow> c # ex_lower (d # s))
      else ascii_lower_char c # ex_lower (d # s))"

text \<open>
  The paths of these surroundings are those of a POSIX system, written from the game
  directory: the file name is split at \<open>/\<close>, empty parts and \<open>.\<close> parts are dropped,
  and a file name that begins with \<open>/\<close> stands alone.
\<close>

fun split_on :: "char \<Rightarrow> string \<Rightarrow> string list" where
  "split_on sep [] = [[]]"
| "split_on sep (c # s) =
     (if c = sep then [] # split_on sep s
      else (case split_on sep s of p # ps \<Rightarrow> (c # p) # ps | [] \<Rightarrow> [[c]]))"

definition parts :: "string \<Rightarrow> string list" where
  "parts f = filter (\<lambda>p. p \<noteq> [] \<and> p \<noteq> ''.'') (split_on CHR ''/'' f)"

fun dir_name :: "dir \<Rightarrow> string" where
  "dir_name mods_path = ''mods''"
| "dir_name resourcepacks_path = ''resourcepacks''"
| "dir_name shaderpacks_path = ''shaderpacks''"

definition ex_join :: "dir \<Rightarrow> string \<Rightarrow> path" where
  "ex_join d f =
     (if starts_with ''/'' f then ''/'' # parts f else dir_name d # parts f)"

definition ex_files :: "version_file list" where
  "ex_files =
     [\<lparr>url = ''https://cdn.example/sample-sources.jar'', file_filename = ''sample-sources.jar'',
       primary = False\<rparr>,
      \<lparr>url = ''https://cdn.example/sample-2.0.jar'', file_filename = ''sample-2.0.jar'',
       primary = True\<rparr>]"

definition ex_version :: "string \<Rightarrow> version" where
  "ex_version label =
     \<lparr>version_number = label, date_published = ''2024-05-01T10:00:00Z'', files = ex_files\<rparr>"

definition ex_env :: "string \<Rightarrow> download_outcome \<Rightarrow> bool \<Rightarrow> env" where
  "ex_env label outcome raises =
     \<lparr>project_response =
        (\<lambda>pid. if pid = ''proj123'' then Body \<lparr>title = ''Sample Mod''\<rparr> else RequestException),
      versions_response =
        (\<lambda>pid g. if pid = ''proj123'' then Body [ex_version label] else Body []),
      download_response = (\<lambda>u d. outcome),
      remove_raises = (\<lambda>f. raises),
      typed = Number 0,
      str_lower = ex_lower,
      joinpath = ex_join\<rparr>"

definition ex_info :: info where
  "ex_info =
     \<lparr>name = ''Sample Mod'', version = ''1.0'', filename = ''sample-1.0.jar'',
      installed_at = ''2024-01-01T10:00:00Z''\<rparr>"

definition ex_shader :: info where
  "ex_shader =
     \<lparr>name = ''Bright Shaders'', version = ''r5'', filename = ''bright-r5.zip'',
      installed_at = ''2023-11-11T08:00:00Z''\<rparr>"

definition ex_ledger :: ledger where
  "ex_ledger =
     \<lparr>mods = [(''proj123'', ex_info)], resourcepacks = [], shaderpacks = [(''shd9'', ex_shader)]\<rparr>"

definition ex_world :: "path set \<Rightarrow> world" where
  "ex_world on_disk =
     \<lparr>installed_content = ex_ledger, config = Holds ex_ledger, disk = on_disk, trace = []\<rparr>"

section \<open>Basic facts\<close>

subsection \<open>Strings and file selection\<close>

lemma starts_with_prefix: "starts_with q s \<longleftrightarrow> prefix q s"
  by (induction q s rule: starts_with.induct) auto

lemma str_in_sublist: "str_in q s \<longleftrightarrow> sublist q s"
  by (induction s) (auto simp: starts_with_prefix sublist_Cons_right)

lemma primary_file_None: "primary_file fs = None \<longleftrightarrow> fs = []"
  by (cases fs) (auto split: option.splits)

lemma find_first_index:
  "find P xs = Some x \<longleftrightarrow> (\<exists>i<length xs. x = xs ! i \<and> P (xs ! i) \<and> (\<forall>j<i. \<not> P (xs ! j)))"
  by (auto simp: find_Some_iff)

lemma primary_file_first:
  assumes "fs \<noteq> []"
  shows "\<exists>f. primary_file fs = Some f \<and>
           (if \<exists>g\<in>set fs. primary g
            then \<exists>i<length fs. f = fs ! i \<and> primary (fs ! i) \<and> (\<forall>j<i. \<not> primary (fs ! j))
            else f = fs ! 0)"
proof (cases "find primary fs")
  case None
  then have no: "\<not> (\<exists>g\<in>set fs. primary g)" by (simp add: find_None_iff)
  from assms obtain f0 rest where fs: "fs = f0 # rest" by (cases fs) auto
  with None have "primary_file fs = Some (fs ! 0)" by simp
  with no show ?thesis by simp
next
  case (Some f)
  then have ex: "\<exists>g\<in>set fs. primary g"
    by (metis find_None_iff option.distinct(1))
  from assms obtain f0 rest where fs: "fs = f0 # rest" by (cases fs) auto
  with Some have pf: "primary_file fs = Some f" by simp
  from Some have "\<exists>i<length fs. f = fs ! i \<and> primary (fs ! i) \<and> (\<forall>j<i. \<not> primary (fs ! j))"
    by (simp only: find_first_index)
  with pf ex show ?thesis by simp
qed

subsection \<open>What each step does to the world\<close>

lemma emit_fields [simp]:
  "installed_content (emit e w) = installed_content w"
  "config (emit e w) = config w"
  "disk (emit e w) = disk w"
  "trace (emit e w) = trace w @ [e]"
  by (simp_all add: emit_def)

lemma print_fields [simp]:
  "installed_content (print m w) = installed_content w"
  "config (print m w) = config w"
  "disk (print m w) = disk w"
  "trace (print m w) = trace w @ [Print m]"
  by (simp_all add: print_def)

lemma save_fields [simp]:
  "installed_content (save_installed_content w) = installed_content w"
  "config (save_installed_content w) = Holds (installed_content w)"
  "disk (save_installed_content w) = disk w"
  "trace (save_installed_content w) = trace w @ [Save (installed_content w)]"
  by (simp_all add: save_installed_content_def)

lemma get_put_same [simp]: "get_content_dict (put_content_dict ct d l) ct = d"
  by (cases ct) simp_all

lemma get_put_other [simp]:
  "ct' \<noteq> ct \<Longrightarrow> get_content_dict (put_content_dict ct d l) ct' = get_content_dict l ct'"
  by (cases ct; cases ct') simp_all

lemma set_item_fields [simp]:
  "config (set_item ct pid i w) = config w"
  "disk (set_item ct pid i w) = disk w"
  "trace (set_item ct pid i w) = trace w"
  "get_content_dict (installed_content (set_item ct pid i w)) ct =
     AList.update pid i (get_content_dict (installed_content w) ct)"
  "ct' \<noteq> ct \<Longrightarrow> get_content_dict (installed_content (set_item ct pid i w)) ct' =
     get_content_dict (installed_content w) ct'"
  by (simp_all add: set_item_def)

lemma del_item_fields [simp]:
  "config (del_item ct pid w) = config w"
  "disk (del_item ct pid w) = disk w"
  "trace (del_item ct pid w) = trace w"
  "get_content_dict (installed_content (del_item ct pid w)) ct =
     AList.delete pid (get_content_dict (installed_content w) ct)"
  "ct' \<noteq> ct \<Longrightarrow> get_content_dict (installed_content (del_item ct pid w)) ct' =
     get_content_dict (installed_content w) ct'"
  by (simp_all add: del_item_def)

lemma get_project_Body [simp]:
  "project_response env pid = Body p \<Longrightarrow> get_project env pid w = (Some p, w)"
  by (simp add: get_project_def)

lemma get_versions_Body [simp]:
  "versions_response env pid (version_params gv) = Body vs \<Longrightarrow>
     get_versions env pid gv w = (vs, w)"
  by (simp add: get_versions_def)

lemma version_params_None [simp]: "version_params None = None"
  by (simp add: version_params_def)

lemma download_file_Completed:
  "download_response env u d = Completed \<Longrightarrow>
     download_file env u d w = (True, (emit (Download u d) w)\<lparr>disk := insert d (disk w)\<rparr>)"
  by (simp add: download_file_def Let_def)

lemma download_file_failed:
  "download_response env u d \<noteq> Completed \<Longrightarrow>
     \<exists>w'. download_file env u d w = (False, w') \<and> installed_content w' = installed_content w \<and>
          config w' = config w \<and>
          trace w' = trace w @ [Download u d, Print ErrorDownloadingFile]"
  by (cases "download_response env u d") (simp_all add: download_file_def Let_def)

lemma downloads_append:
  "trace w' = trace w @ es \<Longrightarrow> downloads w' = downloads w @ concat (map download_of es)"
  by (simp add: downloads_def)

lemma saves_append:
  "trace w' = trace w @ es \<Longrightarrow> saves w' = saves w @ concat (map save_of es)"
  by (simp add: saves_def)

lemma removes_append:
  "trace w' = trace w @ es \<Longrightarrow> removes w' = removes w @ concat (map remove_of es)"
  by (simp add: removes_def)

lemmas ex_defs =
  ex_files_def ex_version_def ex_env_def ex_info_def ex_shader_def ex_ledger_def ex_world_def
  ex_join_def parts_def

lemmas lower_defs =
  ascii_lower_def ascii_lower_char_def ascii_uppercase_def ascii_lowercase_def
  latin_upper_def latin_lower_def

lemma ex_lower_ascii: "is_ascii s \<Longrightarrow> ex_lower s = ascii_lower s"
  by (induction s rule: ex_lower.induct) (auto simp: is_ascii_def ascii_lower_def)

lemma ex_join_same_file:
  "ex_join mods_path ''./sample-1.0.jar'' = ex_join mods_path ''sample-1.0.jar''"
  by (simp add: ex_join_def parts_def)

subsection \<open>Downloads requested by install and by one round of update\<close>

lemma install_downloads:
  assumes p: "project_response env pid = Body p"
    and v: "versions_response env pid (version_params gv) = Body (v # vs)"
    and f: "primary_file (files v) = Some pf"
  shows "downloads (install env pid ct gv w) =
           downloads w @ [(url pf, (joinpath env (get_content_path ct) (file_filename pf)))]"
proof -
  from f have ne: "files v \<noteq> []" by (auto simp: primary_file_None[symmetric])
  show ?thesis
    using p v f ne
    by (cases "download_response env (url pf) (joinpath env (get_content_path ct) (file_filename pf))")
       (simp_all add: install_def Let_def download_file_def downloads_def)
qed

lemma update_item_downloads:
  assumes v: "versions_response env pid None = Body (latest # vs)"
    and n: "version_number latest \<noteq> version i"
    and f: "primary_file (files latest) = Some pf"
  shows "downloads (update_item env ct (pid, i) w) =
           downloads w @ [(url pf, (joinpath env (get_content_path ct) (file_filename pf)))]"
proof -
  from f have ne: "files latest \<noteq> []" by (auto simp: primary_file_None[symmetric])
  from v have gv: "\<And>w. get_versions env pid None w = (latest # vs, w)"
    by (simp add: get_versions_def)
  show ?thesis
    using gv n f ne
    by (cases "download_response env (url pf) (joinpath env (get_content_path ct) (file_filename pf))")
       (simp_all add: update_item_def Let_def download_file_def downloads_def remove_old_def)
qed

lemma install_download_failed:
  assumes p: "project_response env pid = Body p"
    and v: "versions_response env pid (version_params gv) = Body (v # vs)"
    and f: "primary_file (files v) = Some pf"
    and d: "download_response env (url pf) (joinpath env (get_content_path ct) (file_filename pf)) \<noteq> Completed"
  shows "installed_content (install env pid ct gv w) = installed_content w \<and>
         config (install env pid ct gv w) = config w \<and>
         trace (install env pid ct gv w) = trace w @
           [Print (Installing (title p)), Print (Downloading (file_filename pf)),
            Download (url pf) (joinpath env (get_content_path ct) (file_filename pf)),
            Print ErrorDownloadingFile, Print (FailedToInstall (title p))]"
proof -
  from f have ne: "files v \<noteq> []" by (auto simp: primary_file_None[symmetric])
  let ?w1 = "print (Downloading (file_filename pf)) (print (Installing (title p)) w)"
  from download_file_failed[OF d, of ?w1] obtain w' where
    w': "download_file env (url pf) (joinpath env (get_content_path ct) (file_filename pf)) ?w1 = (False, w')"
      "installed_content w' = installed_content w" "config w' = config w"
      "trace w' = trace w @ [Print (Installing (title p)), Print (Downloading (file_filename pf)),
            Download (url pf) (joinpath env (get_content_path ct) (file_filename pf)), Print ErrorDownloadingFile]"
    by auto
  have "install env pid ct gv w = print (FailedToInstall (title p)) w'"
    using p v f ne w'(1) by (simp add: install_def Let_def)
  with w' show ?thesis by simp
qed

subsection \<open>Resolving the entry to uninstall\<close>

lemma resolve_fields [simp]:
  "installed_content (snd (resolve env ct q ms w)) = installed_content w"
  "config (snd (resolve env ct q ms w)) = config w"
  "disk (snd (resolve env ct q ms w)) = disk w"
  "downloads (snd (resolve env ct q ms w)) = downloads w"
  "removes (snd (resolve env ct q ms w)) = removes w"
  "saves (snd (resolve env ct q ms w)) = saves w"
  by (induction env ct q ms w rule: resolve.induct;
      simp add: Let_def downloads_def removes_def saves_def split: reply.splits)+

lemma uninstall_resolved:
  assumes "resolve env ct q (find_matches env q (get_content_dict (installed_content w) ct)) w = (Some m, w1)"
  shows "uninstall env q ct w = remove_entry env ct m w1"
  using assms by (simp add: uninstall_def Let_def)

lemma remove_entry_raises:
  assumes "(joinpath env (get_content_path ct) (filename i)) \<in> disk w"
    and "remove_raises env (joinpath env (get_content_path ct) (filename i))"
  shows "remove_entry env ct (pid, i) w =
           print ErrorRemovingFile (emit (Remove (joinpath env (get_content_path ct) (filename i))) w)"
  using assms by (simp add: remove_entry_def Let_def)

lemma remove_entry_absent:
  assumes "(joinpath env (get_content_path ct) (filename i)) \<notin> disk w"
  shows "remove_entry env ct (pid, i) w = save_installed_content (del_item ct pid w)"
  using assms by (simp add: remove_entry_def Let_def)

subsection \<open>One round of the update loop\<close>

lemma update_item_up_to_date:
  assumes "versions_response env pid None = Body (latest # vs)"
    and "version_number latest = version i"
  shows "update_item env ct (pid, i) w =
           w\<lparr>trace := trace w @ [Print (Checking (name i)), Print (AlreadyUpToDate (version i))]\<rparr>"
proof -
  from assms(1) have gv: "\<And>w. get_versions env pid None w = (latest # vs, w)"
    by (simp add: get_versions_def)
  show ?thesis
    using assms(2) by (simp add: update_item_def Let_def gv print_def emit_def)
qed

lemma update_loop_append:
  "update_loop env ct (xs @ ys) w = update_loop env ct ys (update_loop env ct xs w)"
  by (induction xs arbitrary: w) simp_all

lemma update_item_replaced:
  assumes v: "versions_response env pid None = Body (latest # vs)"
    and n: "version_number latest \<noteq> version i"
    and f: "primary_file (files latest) = Some pf"
    and d: "download_response env (url pf) (joinpath env (get_content_path ct) (file_filename pf)) = Completed"
  shows "update_item env ct (pid, i) w =
           print UpdatedSuccessfully
             (save_installed_content
                (set_item ct pid
                   \<lparr>name = name i, version = version_number latest,
                    filename = file_filename pf, installed_at = date_published latest\<rparr>
                   (remove_old env (joinpath env (get_content_path ct) (filename i))
                      (joinpath env (get_content_path ct) (file_filename pf))
                      ((emit (Download (url pf) (joinpath env (get_content_path ct) (file_filename pf)))
                          (print (UpdateAvailable (version i) (version_number latest))
                             (print (Checking (name i)) w)))
                       \<lparr>disk := insert (joinpath env (get_content_path ct) (file_filename pf)) (disk w)\<rparr>))))"
proof -
  from f have ne: "files latest \<noteq> []" by (auto simp: primary_file_None[symmetric])
  from v have gv: "\<And>w. get_versions env pid None w = (latest # vs, w)"
    by (simp add: get_versions_def)
  show ?thesis
    using n f ne by (simp add: update_item_def Let_def gv download_file_Completed[OF d])
qed

lemma remove_old_same_path: "remove_old env p p w = w"
  by (simp add: remove_old_def)

lemma remove_old_raises:
  assumes "old \<noteq> new" and "old \<in> disk w" and "remove_raises env old"
  shows "remove_old env old new w = print (CouldNotRemoveOldFile old) (emit (Remove old) w)"
  using assms by (simp add: remove_old_def Let_def)

text \<open>
  When the old and the new file name give the same path, as \<^verbatim>\<open>./sample-1.0.jar\<close> and
  \<^verbatim>\<open>sample-1.0.jar\<close> do, \<^verbatim>\<open>os.remove\<close> is not called and no warning can arise; the
  record is written all the same.
\<close>

lemma update_item_same_path:
  assumes "versions_response env pid None = Body (latest # vs)"
    and "version_number latest \<noteq> version i"
    and "primary_file (files latest) = Some pf"
    and "download_response env (url pf) (joinpath env (get_content_path ct) (file_filename pf))
           = Completed"
    and "joinpath env (get_content_path ct) (filename i) =
           joinpath env (get_content_path ct) (file_filename pf)"
  shows "removes (update_item env ct (pid, i) w) = removes w \<and>
         trace (update_item env ct (pid, i) w) = trace w @
           [Print (Checking (name i)),
            Print (UpdateAvailable (version i) (version_number latest)),
            Download (url pf) (joinpath env (get_content_path ct) (file_filename pf)),
            Save (installed_content (update_item env ct (pid, i) w)),
            Print UpdatedSuccessfully]"
proof -
  note u = update_item_replaced[OF assms(1-4), of w, unfolded assms(5) remove_old_same_path]
  have t: "trace (update_item env ct (pid, i) w) = trace w @
           [Print (Checking (name i)),
            Print (UpdateAvailable (version i) (version_number latest)),
            Download (url pf) (joinpath env (get_content_path ct) (file_filename pf)),
            Save (installed_content (update_item env ct (pid, i) w)),
            Print UpdatedSuccessfully]"
    by (simp add: u)
  from removes_append[OF t] t show ?thesis by simp
qed

subsection \<open>The buckets an operation leaves alone\<close>

lemma install_other_bucket:
  assumes "ct' \<noteq> ct"
  shows "get_content_dict (installed_content (install env pid ct gv w)) ct' =
           get_content_dict (installed_content w) ct'"
  using assms
  by (simp add: install_def Let_def get_project_def get_versions_def download_file_def
        split: response.splits list.splits option.splits download_outcome.splits)

lemma remove_entry_other_bucket:
  assumes "ct' \<noteq> ct"
  shows "get_content_dict (installed_content (remove_entry env ct m w)) ct' =
           get_content_dict (installed_content w) ct'"
  using assms by (cases m) (simp add: remove_entry_def Let_def)

lemma uninstall_other_bucket:
  assumes "ct' \<noteq> ct"
  shows "get_content_dict (installed_content (uninstall env q ct w)) ct' =
           get_content_dict (installed_content w) ct'"
proof -
  obtain r w1 where
    r: "resolve env ct q (find_matches env q (get_content_dict (installed_content w) ct)) w = (r, w1)"
    by (metis prod.collapse)
  then have w1: "w1 = snd (resolve env ct q
                    (find_matches env q (get_content_dict (installed_content w) ct)) w)"
    by simp
  have k: "installed_content w1 = installed_content w"
    by (simp add: w1)
  show ?thesis
  proof (cases r)
    case None
    with r have "uninstall env q ct w = w1"
      by (simp add: uninstall_def Let_def)
    with k show ?thesis by simp
  next
    case (Some m)
    with r have "uninstall env q ct w = remove_entry env ct m w1"
      by (simp add: uninstall_def Let_def)
    with k show ?thesis by (simp add: remove_entry_other_bucket[OF assms])
  qed
qed

lemma update_item_other_bucket:
  assumes "ct' \<noteq> ct"
  shows "get_content_dict (installed_content (update_item env ct item w)) ct' =
           get_content_dict (installed_content w) ct'"
  using assms
  by (cases item)
     (simp add: update_item_def Let_def get_versions_def download_file_def remove_old_def
        split: response.splits list.splits option.splits download_outcome.splits)

lemma update_loop_other_bucket:
  assumes "ct' \<noteq> ct"
  shows "get_content_dict (installed_content (update_loop env ct items w)) ct' =
           get_content_dict (installed_content w) ct'"
  by (induction items arbitrary: w) (simp_all add: update_item_other_bucket[OF assms])

lemma update_type_other_bucket:
  assumes "ct' \<noteq> ct"
  shows "get_content_dict (installed_content (update_type env ct nq w)) ct' =
           get_content_dict (installed_content w) ct'"
  by (simp add: update_type_def Let_def update_loop_other_bucket[OF assms] split: option.splits)

lemma name_matches_sublist:
  "name_matches env q i \<longleftrightarrow>
     (\<exists>ps ss. str_lower env (name i) = ps @ str_lower env q @ ss)"
  by (simp add: name_matches_def str_in_sublist sublist_def)

section \<open>The claims\<close>

subsection \<open>C1: the project-type facet of a search\<close>

text \<open>
  C1 says that for every content type the facet list built by \<^verbatim>\<open>ModrinthAPI.search\<close>
  holds the project-type facet of that type. For a shader pack it does not: the facet
  stored by the \<^verbatim>\<open>elif\<close> branch is lost when \<^verbatim>\<open>facets = []\<close> rebinds the local, and
  \<^verbatim>\<open>project_type\<close> is \<open>None\<close> there. A search for shader packs with no game version
  builds the empty list and sends no \<^verbatim>\<open>facets\<close> parameter; with a game version only
  the versions facet is sent. Mods and resource packs get their facet.
\<close>

theorem search_drops_shader_facet:
  "search_facets SHADER_PACK None = [] \<and>
   facets (search_request ''sodium'' SHADER_PACK None 20) = None \<and>
   [''project_type:'' @ ct_value SHADER_PACK]
     \<notin> set (search_facets SHADER_PACK (Some [''1.20.1''])) \<and>
   [''project_type:'' @ ct_value MOD] \<in> set (search_facets MOD None) \<and>
   [''project_type:'' @ ct_value RESOURCE_PACK] \<in> set (search_facets RESOURCE_PACK None)"
  by (simp add: search_facets_def search_request_def)

subsection \<open>C2: the file selected for download\<close>

text \<open>
  C2: for a non-empty file list, the selected file is the first entry flagged primary if
  there is one, and the first entry of the list otherwise; it is the file whose url and
  name \<^verbatim>\<open>install\<close> passes to \<^verbatim>\<open>download_file\<close>, and the one a round of the loop of
  \<^verbatim>\<open>update\<close> passes when the version labels differ. Each makes exactly this one download.
\<close>

theorem primary_file_selected:
  assumes "fs \<noteq> []"
  shows "\<exists>f. primary_file fs = Some f \<and>
           (if \<exists>g\<in>set fs. primary g
            then \<exists>k<length fs. f = fs ! k \<and> primary (fs ! k) \<and> (\<forall>j<k. \<not> primary (fs ! j))
            else f = fs ! 0) \<and>
           (\<forall>env pid ct gv w p v vs.
              project_response env pid = Body p \<and>
              versions_response env pid (version_params gv) = Body (v # vs) \<and> files v = fs \<longrightarrow>
              downloads (install env pid ct gv w) =
                downloads w @ [(url f, (joinpath env (get_content_path ct) (file_filename f)))]) \<and>
           (\<forall>env pid ct i w latest vs.
              versions_response env pid None = Body (latest # vs) \<and>
              version_number latest \<noteq> version i \<and> files latest = fs \<longrightarrow>
              downloads (update_item env ct (pid, i) w) =
                downloads w @ [(url f, (joinpath env (get_content_path ct) (file_filename f)))])"
proof -
  from primary_file_first[OF assms] obtain f where
    sel: "primary_file fs = Some f"
    and first: "if \<exists>g\<in>set fs. primary g
            then \<exists>k<length fs. f = fs ! k \<and> primary (fs ! k) \<and> (\<forall>j<k. \<not> primary (fs ! j))
            else f = fs ! 0"
    by blast
  have inst: "\<forall>env pid ct gv w p v vs.
              project_response env pid = Body p \<and>
              versions_response env pid (version_params gv) = Body (v # vs) \<and> files v = fs \<longrightarrow>
              downloads (install env pid ct gv w) =
                downloads w @ [(url f, (joinpath env (get_content_path ct) (file_filename f)))]"
    using sel by (auto intro: install_downloads)
  have upd: "\<forall>env pid ct i w latest vs.
              versions_response env pid None = Body (latest # vs) \<and>
              version_number latest \<noteq> version i \<and> files latest = fs \<longrightarrow>
              downloads (update_item env ct (pid, i) w) =
                downloads w @ [(url f, (joinpath env (get_content_path ct) (file_filename f)))]"
    using sel by (auto intro: update_item_downloads)
  from sel first inst upd show ?thesis by blast
qed

theorem primary_file_selected_witness:
  "ex_files \<noteq> [] \<and> primary_file ex_files = Some (ex_files ! 1) \<and>
   primary (ex_files ! 1) \<and> \<not> primary (ex_files ! 0) \<and>
   downloads (install (ex_env ''2.0'' Completed False) ''proj123'' MOD None (ex_world {})) =
     [(''https://cdn.example/sample-2.0.jar'', [''mods'', ''sample-2.0.jar''])] \<and>
   downloads (update_item (ex_env ''2.0'' Completed False) MOD (''proj123'', ex_info)
                (ex_world {})) =
     [(''https://cdn.example/sample-2.0.jar'', [''mods'', ''sample-2.0.jar''])]"
proof -
  have ne: "ex_files \<noteq> []" by (simp add: ex_files_def)
  from primary_file_selected[OF ne] obtain f where
    sel: "primary_file ex_files = Some f"
    and inst: "\<forall>env pid ct gv w p v vs.
              project_response env pid = Body p \<and>
              versions_response env pid (version_params gv) = Body (v # vs) \<and>
              files v = ex_files \<longrightarrow>
              downloads (install env pid ct gv w) =
                downloads w @ [(url f, (joinpath env (get_content_path ct) (file_filename f)))]"
    and upd: "\<forall>env pid ct i w latest vs.
              versions_response env pid None = Body (latest # vs) \<and>
              version_number latest \<noteq> version i \<and> files latest = ex_files \<longrightarrow>
              downloads (update_item env ct (pid, i) w) =
                downloads w @ [(url f, (joinpath env (get_content_path ct) (file_filename f)))]"
    by blast
  from sel have f: "f = ex_files ! 1" by (simp add: ex_files_def)
  have a: "downloads (install (ex_env ''2.0'' Completed False) ''proj123'' MOD None (ex_world {})) =
     [(''https://cdn.example/sample-2.0.jar'', [''mods'', ''sample-2.0.jar''])]"
    using inst[rule_format, where env = "ex_env ''2.0'' Completed False" and pid = "''proj123''"
        and p = "\<lparr>title = ''Sample Mod''\<rparr>" and gv = None and v = "ex_version ''2.0''"
        and vs = "[]" and w = "ex_world {}" and ct = MOD]
    by (simp add: f ex_defs downloads_def)
  have b: "downloads (update_item (ex_env ''2.0'' Completed False) MOD (''proj123'', ex_info)
                (ex_world {})) =
     [(''https://cdn.example/sample-2.0.jar'', [''mods'', ''sample-2.0.jar''])]"
    using upd[rule_format, where env = "ex_env ''2.0'' Completed False" and pid = "''proj123''"
        and latest = "ex_version ''2.0''" and vs = "[]" and i = ex_info and w = "ex_world {}"
        and ct = MOD]
    by (simp add: f ex_defs downloads_def)
  from ne sel f a b show ?thesis by (simp add: ex_files_def)
qed

subsection \<open>C3: a failed download leaves the ledger alone\<close>

text \<open>
  C3: when \<^verbatim>\<open>install\<close> reaches the download and \<^verbatim>\<open>download_file\<close> returns
  \<open>False\<close>, the ledger in memory and the configuration file are what they were, nothing
  was saved, and the last line printed reports the failed installation.
\<close>

theorem install_failure_keeps_ledger:
  assumes "project_response env pid = Body p"
    and "versions_response env pid (version_params gv) = Body (v # vs)"
    and "primary_file (files v) = Some pf"
    and "download_response env (url pf) (joinpath env (get_content_path ct) (file_filename pf)) \<noteq> Completed"
  shows "installed_content (install env pid ct gv w) = installed_content w \<and>
         config (install env pid ct gv w) = config w \<and>
         saves (install env pid ct gv w) = saves w \<and>
         last (trace (install env pid ct gv w)) = Print (FailedToInstall (title p))"
  using install_download_failed[OF assms, of w] by (simp add: saves_def)

theorem install_failure_keeps_ledger_witness:
  "project_response (ex_env ''2.0'' BrokenStream False) ''proj123'' = Body \<lparr>title = ''Sample Mod''\<rparr> \<and>
   versions_response (ex_env ''2.0'' BrokenStream False) ''proj123'' (version_params None) =
     Body [ex_version ''2.0''] \<and>
   primary_file (files (ex_version ''2.0'')) = Some (ex_files ! 1) \<and>
   download_response (ex_env ''2.0'' BrokenStream False) (url (ex_files ! 1))
     (joinpath (ex_env ''2.0'' BrokenStream False) (get_content_path MOD) (file_filename (ex_files ! 1))) \<noteq> Completed \<and>
   installed_content (install (ex_env ''2.0'' BrokenStream False) ''proj123'' MOD None (ex_world {}))
     = ex_ledger \<and>
   config (install (ex_env ''2.0'' BrokenStream False) ''proj123'' MOD None (ex_world {}))
     = Holds ex_ledger \<and>
   saves (install (ex_env ''2.0'' BrokenStream False) ''proj123'' MOD None (ex_world {})) = [] \<and>
   last (trace (install (ex_env ''2.0'' BrokenStream False) ''proj123'' MOD None (ex_world {})))
     = Print (FailedToInstall ''Sample Mod'')"
proof -
  have p: "project_response (ex_env ''2.0'' BrokenStream False) ''proj123''
             = Body \<lparr>title = ''Sample Mod''\<rparr>"
    by (simp add: ex_env_def)
  have v: "versions_response (ex_env ''2.0'' BrokenStream False) ''proj123'' (version_params None)
             = Body (ex_version ''2.0'' # [])"
    by (simp add: ex_env_def)
  have f: "primary_file (files (ex_version ''2.0'')) = Some (ex_files ! 1)"
    by (simp add: ex_version_def ex_files_def)
  have d: "download_response (ex_env ''2.0'' BrokenStream False) (url (ex_files ! 1))
             (joinpath (ex_env ''2.0'' BrokenStream False) (get_content_path MOD) (file_filename (ex_files ! 1))) \<noteq> Completed"
    by (simp add: ex_env_def)
  from install_failure_keeps_ledger[OF p v f d, of "ex_world {}"] p v f d
  show ?thesis by (simp add: ex_world_def saves_def)
qed

subsection \<open>C4: uninstall stops when the file cannot be removed\<close>

text \<open>
  C4: \<^verbatim>\<open>uninstall\<close> has resolved the query to the entry \<open>(pid, i)\<close>, the file of the entry
  exists, and \<^verbatim>\<open>os.remove\<close> raises \<^verbatim>\<open>OSError\<close>. Then the operation ends with the error
  printed: the ledger in memory (so the bucket and the entry), the configuration file and
  the disk are what they were, and nothing was saved.
\<close>

theorem uninstall_remove_error_aborts:
  assumes "fst (resolve env ct q (find_matches env q (get_content_dict (installed_content w) ct)) w)
             = Some (pid, i)"
    and "(joinpath env (get_content_path ct) (filename i)) \<in> disk w"
    and "remove_raises env (joinpath env (get_content_path ct) (filename i))"
  shows "installed_content (uninstall env q ct w) = installed_content w \<and>
         config (uninstall env q ct w) = config w \<and>
         saves (uninstall env q ct w) = saves w \<and>
         disk (uninstall env q ct w) = disk w \<and>
         removes (uninstall env q ct w) = removes w @ [(joinpath env (get_content_path ct) (filename i))] \<and>
         last (trace (uninstall env q ct w)) = Print ErrorRemovingFile"
proof -
  obtain w1 where r: "resolve env ct q (find_matches env q (get_content_dict (installed_content w) ct)) w
                        = (Some (pid, i), w1)"
    using assms(1) by (metis prod.collapse)
  then have w1: "w1 = snd (resolve env ct q
                    (find_matches env q (get_content_dict (installed_content w) ct)) w)"
    by simp
  have d: "(joinpath env (get_content_path ct) (filename i)) \<in> disk w1"
    using assms(2) by (simp add: w1)
  have u: "uninstall env q ct w =
             print ErrorRemovingFile (emit (Remove (joinpath env (get_content_path ct) (filename i))) w1)"
    using uninstall_resolved[OF r] remove_entry_raises[OF d assms(3)] by simp
  have s: "saves (uninstall env q ct w) = saves w1"
    and m: "removes (uninstall env q ct w) = removes w1 @ [(joinpath env (get_content_path ct) (filename i))]"
    by (simp_all add: u saves_def removes_def)
  show ?thesis
    using s m by (simp add: u) (simp add: w1)
qed

theorem uninstall_remove_error_aborts_witness:
  "fst (resolve (ex_env ''2.0'' Completed True) MOD ''sample''
          (find_matches (ex_env ''2.0'' Completed True) ''sample''
             (get_content_dict (installed_content (ex_world {[''mods'', ''sample-1.0.jar'']})) MOD))
          (ex_world {[''mods'', ''sample-1.0.jar'']})) = Some (''proj123'', ex_info) \<and>
   (joinpath (ex_env ''2.0'' Completed True) (get_content_path MOD) (filename ex_info)) \<in> disk (ex_world {[''mods'', ''sample-1.0.jar'']}) \<and>
   remove_raises (ex_env ''2.0'' Completed True) (joinpath (ex_env ''2.0'' Completed True) (get_content_path MOD) (filename ex_info)) \<and>
   installed_content (uninstall (ex_env ''2.0'' Completed True) ''sample'' MOD
                        (ex_world {[''mods'', ''sample-1.0.jar'']})) = ex_ledger \<and>
   config (uninstall (ex_env ''2.0'' Completed True) ''sample'' MOD
             (ex_world {[''mods'', ''sample-1.0.jar'']})) = Holds ex_ledger \<and>
   saves (uninstall (ex_env ''2.0'' Completed True) ''sample'' MOD
            (ex_world {[''mods'', ''sample-1.0.jar'']})) = [] \<and>
   last (trace (uninstall (ex_env ''2.0'' Completed True) ''sample'' MOD
                  (ex_world {[''mods'', ''sample-1.0.jar'']}))) = Print ErrorRemovingFile"
proof -
  let ?env = "ex_env ''2.0'' Completed True"
  let ?w = "ex_world {[''mods'', ''sample-1.0.jar'']}"
  have m: "find_matches (ex_env ''2.0'' Completed True) ''sample'' (mods (installed_content ?w)) = [(''proj123'', ex_info)]"
    by (simp add: ex_world_def ex_ledger_def ex_info_def find_matches_def name_matches_def
          lower_defs ex_env_def)
  have r: "fst (resolve ?env MOD ''sample''
                 (find_matches (ex_env ''2.0'' Completed True) ''sample'' (get_content_dict (installed_content ?w) MOD)) ?w)
             = Some (''proj123'', ex_info)"
    by (simp add: m)
  have d: "(joinpath (ex_env ''2.0'' Completed True) (get_content_path MOD) (filename ex_info)) \<in> disk ?w"
    by (simp add: ex_defs)
  have e: "remove_raises ?env (joinpath (ex_env ''2.0'' Completed True) (get_content_path MOD) (filename ex_info))"
    by (simp add: ex_env_def)
  from uninstall_remove_error_aborts[OF r d e] r d e
  show ?thesis by (simp add: ex_world_def saves_def)
qed

subsection \<open>C7: uninstall when the file is already gone\<close>

text \<open>
  C7: \<^verbatim>\<open>uninstall\<close> has resolved the query to the entry \<open>(pid, i)\<close> and the file of the
  entry does not exist. Then \<^verbatim>\<open>os.remove\<close> is not called and no error is printed: after
  the resolution the only effect is the save. The entry is deleted from the bucket of the
  content type and the configuration file holds the new ledger.
\<close>

theorem uninstall_absent_file_proceeds:
  assumes "fst (resolve env ct q (find_matches env q (get_content_dict (installed_content w) ct)) w)
             = Some (pid, i)"
    and "(joinpath env (get_content_path ct) (filename i)) \<notin> disk w"
  shows "removes (uninstall env q ct w) = removes w \<and>
         get_content_dict (installed_content (uninstall env q ct w)) ct =
           AList.delete pid (get_content_dict (installed_content w) ct) \<and>
         map_of (get_content_dict (installed_content (uninstall env q ct w)) ct) pid = None \<and>
         config (uninstall env q ct w) = Holds (installed_content (uninstall env q ct w)) \<and>
         saves (uninstall env q ct w) = saves w @ [installed_content (uninstall env q ct w)] \<and>
         trace (uninstall env q ct w) =
           trace (snd (resolve env ct q
                    (find_matches env q (get_content_dict (installed_content w) ct)) w)) @
           [Save (installed_content (uninstall env q ct w))]"
proof -
  obtain w1 where r: "resolve env ct q (find_matches env q (get_content_dict (installed_content w) ct)) w
                        = (Some (pid, i), w1)"
    using assms(1) by (metis prod.collapse)
  then have w1: "w1 = snd (resolve env ct q
                    (find_matches env q (get_content_dict (installed_content w) ct)) w)"
    by simp
  have d: "(joinpath env (get_content_path ct) (filename i)) \<notin> disk w1"
    using assms(2) by (simp add: w1)
  have u: "uninstall env q ct w = save_installed_content (del_item ct pid w1)"
    using uninstall_resolved[OF r] remove_entry_absent[OF d] by simp
  have s: "saves (uninstall env q ct w) = saves w1 @ [installed_content (uninstall env q ct w)]"
    and m: "removes (uninstall env q ct w) = removes w1"
    by (simp_all add: u saves_def removes_def)
  have b: "get_content_dict (installed_content (uninstall env q ct w)) ct =
             AList.delete pid (get_content_dict (installed_content w1) ct)"
    by (simp add: u)
  have t: "trace (uninstall env q ct w) = trace w1 @ [Save (installed_content (uninstall env q ct w))]"
    by (simp add: u)
  have c: "config (uninstall env q ct w) = Holds (installed_content (uninstall env q ct w))"
    by (simp add: u)
  show ?thesis
    using s m b t c by (simp add: w1 delete_conv')
qed

theorem uninstall_absent_file_proceeds_witness:
  "fst (resolve (ex_env ''2.0'' Completed False) MOD ''sample''
          (find_matches (ex_env ''2.0'' Completed False) ''sample'' (get_content_dict (installed_content (ex_world {})) MOD))
          (ex_world {})) = Some (''proj123'', ex_info) \<and>
   (joinpath (ex_env ''2.0'' Completed False) (get_content_path MOD) (filename ex_info)) \<notin> disk (ex_world {}) \<and>
   get_content_dict
     (installed_content (uninstall (ex_env ''2.0'' Completed False) ''sample'' MOD (ex_world {})))
     MOD = [] \<and>
   config (uninstall (ex_env ''2.0'' Completed False) ''sample'' MOD (ex_world {})) =
     Holds (installed_content
              (uninstall (ex_env ''2.0'' Completed False) ''sample'' MOD (ex_world {}))) \<and>
   removes (uninstall (ex_env ''2.0'' Completed False) ''sample'' MOD (ex_world {})) = [] \<and>
   trace (uninstall (ex_env ''2.0'' Completed False) ''sample'' MOD (ex_world {})) =
     [Save (installed_content
              (uninstall (ex_env ''2.0'' Completed False) ''sample'' MOD (ex_world {})))]"
proof -
  let ?env = "ex_env ''2.0'' Completed False"
  let ?w = "ex_world {}"
  have m: "find_matches (ex_env ''2.0'' Completed False) ''sample'' (mods (installed_content ?w)) = [(''proj123'', ex_info)]"
    by (simp add: ex_world_def ex_ledger_def ex_info_def find_matches_def name_matches_def
          lower_defs ex_env_def)
  have r: "fst (resolve ?env MOD ''sample''
                 (find_matches (ex_env ''2.0'' Completed False) ''sample'' (get_content_dict (installed_content ?w) MOD)) ?w)
             = Some (''proj123'', ex_info)"
    by (simp add: m)
  have d: "(joinpath (ex_env ''2.0'' Completed False) (get_content_path MOD) (filename ex_info)) \<notin> disk ?w"
    by (simp add: ex_world_def)
  have b: "AList.delete ''proj123'' (get_content_dict (installed_content ?w) MOD) = []"
    by (simp add: ex_world_def ex_ledger_def AList.delete_eq)
  have t: "trace (snd (resolve ?env MOD ''sample''
                 (find_matches (ex_env ''2.0'' Completed False) ''sample'' (get_content_dict (installed_content ?w) MOD)) ?w)) = []"
    by (simp add: m) (simp add: ex_world_def)
  have e: "removes ?w = []"
    by (simp add: removes_def ex_world_def)
  from uninstall_absent_file_proceeds[OF r d] r d
  show ?thesis by (simp only: b t e append_Nil simp_thms)
qed

subsection \<open>C5: an entry that is up to date is skipped\<close>

text \<open>
  C5: when the label of the latest remote version equals the recorded label, the round of
  the loop for that entry prints that it is checked and that it is up to date, and does
  nothing else: no download is requested, the ledger in memory, the configuration file and
  the disk stay as they are, nothing is saved. This holds wherever the entry stands among
  the candidates of an \<^verbatim>\<open>update\<close>.
\<close>

theorem update_skips_up_to_date:
  assumes "versions_response env pid None = Body (latest # vs)"
    and "version_number latest = version i"
  shows "update_item env ct (pid, i) w =
           w\<lparr>trace := trace w @ [Print (Checking (name i)), Print (AlreadyUpToDate (version i))]\<rparr> \<and>
         downloads (update_item env ct (pid, i) w) = downloads w \<and>
         saves (update_item env ct (pid, i) w) = saves w \<and>
         installed_content (update_item env ct (pid, i) w) = installed_content w \<and>
         config (update_item env ct (pid, i) w) = config w \<and>
         disk (update_item env ct (pid, i) w) = disk w \<and>
         update_loop env ct (before @ (pid, i) # after) w =
           update_loop env ct after
             ((update_loop env ct before w)
                \<lparr>trace := trace (update_loop env ct before w) @
                   [Print (Checking (name i)), Print (AlreadyUpToDate (version i))]\<rparr>)"
  by (simp add: update_item_up_to_date[OF assms] update_loop_append downloads_def saves_def)

theorem update_skips_up_to_date_witness:
  "versions_response (ex_env ''1.0'' Completed False) ''proj123'' None = Body [ex_version ''1.0''] \<and>
   version_number (ex_version ''1.0'') = version ex_info \<and>
   update_item (ex_env ''1.0'' Completed False) MOD (''proj123'', ex_info) (ex_world {}) =
     \<lparr>installed_content = ex_ledger, config = Holds ex_ledger, disk = {},
      trace = [Print (Checking ''Sample Mod''), Print (AlreadyUpToDate ''1.0'')]\<rparr> \<and>
   downloads (update_item (ex_env ''1.0'' Completed False) MOD (''proj123'', ex_info) (ex_world {}))
     = [] \<and>
   saves (update_item (ex_env ''1.0'' Completed False) MOD (''proj123'', ex_info) (ex_world {}))
     = []"
proof -
  have v: "versions_response (ex_env ''1.0'' Completed False) ''proj123'' None
             = Body (ex_version ''1.0'' # [])"
    by (simp add: ex_env_def)
  have n: "version_number (ex_version ''1.0'') = version ex_info"
    by (simp add: ex_version_def ex_info_def)
  from update_skips_up_to_date[OF v n, of MOD "ex_world {}"] v n
  show ?thesis by (simp add: ex_world_def ex_info_def downloads_def saves_def)
qed

subsection \<open>C6: the update is recorded although the old file stays\<close>

text \<open>
  C6: in a round of the loop the new file is downloaded in full, its name differs from the
  recorded one, and deleting the old file raises \<^verbatim>\<open>OSError\<close>. The program deletes the
  old file only when the two paths differ as \<^verbatim>\<open>pathlib\<close> compares them and the old one
  exists, so these two conditions are part of "deleting raises". Then the warning is
  printed, the entry of the project holds the recorded name with the new version label, the
  new file name and the new publish timestamp, the ledger is saved, and the update is
  reported as successful; both files are on the disk.
\<close>

theorem update_commits_when_old_file_stays:
  assumes "versions_response env pid None = Body (latest # vs)"
    and "version_number latest \<noteq> version i"
    and "primary_file (files latest) = Some pf"
    and "download_response env (url pf) (joinpath env (get_content_path ct) (file_filename pf))
           = Completed"
    and "file_filename pf \<noteq> filename i"
    and "joinpath env (get_content_path ct) (filename i) \<noteq>
           joinpath env (get_content_path ct) (file_filename pf)"
    and "(joinpath env (get_content_path ct) (filename i)) \<in> disk w"
    and "remove_raises env (joinpath env (get_content_path ct) (filename i))"
  shows "trace (update_item env ct (pid, i) w) = trace w @
           [Print (Checking (name i)),
            Print (UpdateAvailable (version i) (version_number latest)),
            Download (url pf) (joinpath env (get_content_path ct) (file_filename pf)),
            Remove (joinpath env (get_content_path ct) (filename i)),
            Print (CouldNotRemoveOldFile (joinpath env (get_content_path ct) (filename i))),
            Save (installed_content (update_item env ct (pid, i) w)),
            Print UpdatedSuccessfully] \<and>
         map_of (get_content_dict (installed_content (update_item env ct (pid, i) w)) ct) pid =
           Some \<lparr>name = name i, version = version_number latest,
                 filename = file_filename pf, installed_at = date_published latest\<rparr> \<and>
         get_content_dict (installed_content (update_item env ct (pid, i) w)) ct =
           AList.update pid
             \<lparr>name = name i, version = version_number latest,
              filename = file_filename pf, installed_at = date_published latest\<rparr>
             (get_content_dict (installed_content w) ct) \<and>
         config (update_item env ct (pid, i) w) =
           Holds (installed_content (update_item env ct (pid, i) w)) \<and>
         saves (update_item env ct (pid, i) w) =
           saves w @ [installed_content (update_item env ct (pid, i) w)] \<and>
         disk (update_item env ct (pid, i) w) =
           insert (joinpath env (get_content_path ct) (file_filename pf)) (disk w)"
proof -
  let ?old = "joinpath env (get_content_path ct) (filename i)"
  let ?new = "joinpath env (get_content_path ct) (file_filename pf)"
  let ?w1 = "(emit (Download (url pf) ?new)
                (print (UpdateAvailable (version i) (version_number latest))
                   (print (Checking (name i)) w)))
             \<lparr>disk := insert ?new (disk w)\<rparr>"
  have ne: "?old \<noteq> ?new" by (rule assms(6))
  have ex: "?old \<in> disk ?w1" using assms(7) by simp
  have ro: "remove_old env ?old ?new ?w1 = print (CouldNotRemoveOldFile ?old) (emit (Remove ?old) ?w1)"
    by (rule remove_old_raises[OF ne ex assms(8)])
  note u = update_item_replaced[OF assms(1-4), of w, unfolded ro]
  have t: "trace (update_item env ct (pid, i) w) = trace w @
           [Print (Checking (name i)),
            Print (UpdateAvailable (version i) (version_number latest)),
            Download (url pf) ?new, Remove ?old, Print (CouldNotRemoveOldFile ?old),
            Save (installed_content (update_item env ct (pid, i) w)),
            Print UpdatedSuccessfully]"
    by (simp add: u)
  have b: "get_content_dict (installed_content (update_item env ct (pid, i) w)) ct =
           AList.update pid
             \<lparr>name = name i, version = version_number latest,
              filename = file_filename pf, installed_at = date_published latest\<rparr>
             (get_content_dict (installed_content w) ct)"
    by (simp add: u)
  have c: "config (update_item env ct (pid, i) w) =
             Holds (installed_content (update_item env ct (pid, i) w))"
    by (simp add: u)
  have d: "disk (update_item env ct (pid, i) w) = insert ?new (disk w)"
    by (simp add: u)
  have s: "saves (update_item env ct (pid, i) w) =
             saves w @ [installed_content (update_item env ct (pid, i) w)]"
    using saves_append[OF t] by simp
  show ?thesis
    using t c d s by (simp add: b update_conv')
qed

theorem update_commits_when_old_file_stays_witness:
  "versions_response (ex_env ''2.0'' Completed True) ''proj123'' None = Body [ex_version ''2.0''] \<and>
   version_number (ex_version ''2.0'') \<noteq> version ex_info \<and>
   primary_file (files (ex_version ''2.0'')) = Some (ex_files ! 1) \<and>
   download_response (ex_env ''2.0'' Completed True) (url (ex_files ! 1))
     (joinpath (ex_env ''2.0'' Completed True) (get_content_path MOD)
        (file_filename (ex_files ! 1))) = Completed \<and>
   file_filename (ex_files ! 1) \<noteq> filename ex_info \<and>
   joinpath (ex_env ''2.0'' Completed True) (get_content_path MOD) (filename ex_info) =
     [''mods'', ''sample-1.0.jar''] \<and>
   joinpath (ex_env ''2.0'' Completed True) (get_content_path MOD)
     (file_filename (ex_files ! 1)) = [''mods'', ''sample-2.0.jar''] \<and>
   [''mods'', ''sample-1.0.jar''] \<in> disk (ex_world {[''mods'', ''sample-1.0.jar'']}) \<and>
   remove_raises (ex_env ''2.0'' Completed True) [''mods'', ''sample-1.0.jar''] \<and>
   Print (CouldNotRemoveOldFile [''mods'', ''sample-1.0.jar''])
     \<in> set (trace (update_item (ex_env ''2.0'' Completed True) MOD (''proj123'', ex_info)
                     (ex_world {[''mods'', ''sample-1.0.jar'']}))) \<and>
   get_content_dict
     (installed_content (update_item (ex_env ''2.0'' Completed True) MOD (''proj123'', ex_info)
                           (ex_world {[''mods'', ''sample-1.0.jar'']}))) MOD =
     [(''proj123'',
       \<lparr>name = ''Sample Mod'', version = ''2.0'', filename = ''sample-2.0.jar'',
        installed_at = ''2024-05-01T10:00:00Z''\<rparr>)] \<and>
   config (update_item (ex_env ''2.0'' Completed True) MOD (''proj123'', ex_info)
             (ex_world {[''mods'', ''sample-1.0.jar'']})) =
     Holds (installed_content
              (update_item (ex_env ''2.0'' Completed True) MOD (''proj123'', ex_info)
                 (ex_world {[''mods'', ''sample-1.0.jar'']}))) \<and>
   disk (update_item (ex_env ''2.0'' Completed True) MOD (''proj123'', ex_info)
           (ex_world {[''mods'', ''sample-1.0.jar'']})) =
     {[''mods'', ''sample-2.0.jar''], [''mods'', ''sample-1.0.jar'']}"
proof -
  let ?env = "ex_env ''2.0'' Completed True"
  let ?w = "ex_world {[''mods'', ''sample-1.0.jar'']}"
  have old: "joinpath ?env (get_content_path MOD) (filename ex_info) = [''mods'', ''sample-1.0.jar'']"
    by (simp add: ex_defs)
  have new: "joinpath ?env (get_content_path MOD) (file_filename (ex_files ! 1))
               = [''mods'', ''sample-2.0.jar'']"
    by (simp add: ex_defs)
  have v: "versions_response ?env ''proj123'' None = Body (ex_version ''2.0'' # [])"
    by (simp add: ex_env_def)
  have n: "version_number (ex_version ''2.0'') \<noteq> version ex_info"
    by (simp add: ex_version_def ex_info_def)
  have f: "primary_file (files (ex_version ''2.0'')) = Some (ex_files ! 1)"
    by (simp add: ex_version_def ex_files_def)
  have d: "download_response ?env (url (ex_files ! 1))
             (joinpath ?env (get_content_path MOD) (file_filename (ex_files ! 1))) = Completed"
    by (simp add: ex_env_def)
  have ne: "file_filename (ex_files ! 1) \<noteq> filename ex_info"
    by (simp add: ex_files_def ex_info_def)
  have pne: "joinpath ?env (get_content_path MOD) (filename ex_info) \<noteq>
             joinpath ?env (get_content_path MOD) (file_filename (ex_files ! 1))"
    unfolding old new by simp
  have ex: "joinpath ?env (get_content_path MOD) (filename ex_info) \<in> disk ?w"
    unfolding old by (simp add: ex_world_def)
  have r: "remove_raises ?env (joinpath ?env (get_content_path MOD) (filename ex_info))"
    by (simp add: ex_env_def)
  have l: "get_content_dict (installed_content ?w) MOD = [(''proj123'', ex_info)]"
    by (simp add: ex_world_def ex_ledger_def)
  have k: "disk ?w = {[''mods'', ''sample-1.0.jar'']}" and t0: "trace ?w = []"
    by (simp_all add: ex_world_def)
  from update_commits_when_old_file_stays[OF v n f d ne pne ex r] v n f d ne ex r
  show ?thesis
    unfolding old new l k t0
    by (simp add: ex_info_def ex_files_def ex_version_def)
qed

subsection \<open>C8: the name filter\<close>

text \<open>
  C8: the filter of \<^verbatim>\<open>uninstall\<close> and \<^verbatim>\<open>update\<close> keeps an entry exactly when the
  lowercased query occurs in the lowercased display name as a contiguous run, and keeps
  the entries in the order of the bucket; this holds whatever \<^verbatim>\<open>str.lower()\<close> does.
  Given that \<^verbatim>\<open>str.lower()\<close> acts on ASCII text as described above: the empty query, for
  which \<^verbatim>\<open>update\<close> does not run the filter, would keep every entry; for an ASCII query
  and an ASCII name the filter is the search for the query in the name with the letters
  \<open>A\<close> to \<open>Z\<close> of both made small; the queries \<open>opti\<close> and \<open>OPTIFINE\<close> match the name
  \<open>OptiFine\<close>, although the first is neither equal to it nor, with case observed, part of
  it; the queries \<open>optic\<close> and \<open>opti fine\<close> do not match it, and \<open>opti\<close> does not match
  \<open>Sodium\<close>.
\<close>

theorem name_filter_is_lowercase_substring:
  assumes "\<And>s. is_ascii s \<Longrightarrow> str_lower env s = ascii_lower s"
  shows "(name_matches env q i \<longleftrightarrow>
            (\<exists>ps ss. str_lower env (name i) = ps @ str_lower env q @ ss)) \<and>
         find_matches env q d =
           filter (\<lambda>(pid, i). \<exists>ps ss. str_lower env (name i) = ps @ str_lower env q @ ss) d \<and>
         find_matches env [] d = d \<and>
         (is_ascii q \<and> is_ascii (name i) \<longrightarrow>
            (name_matches env q i \<longleftrightarrow>
               (\<exists>ps ss. ascii_lower (name i) = ps @ ascii_lower q @ ss))) \<and>
         name_matches env ''opti''
           \<lparr>name = ''OptiFine'', version = v, filename = f, installed_at = t\<rparr> \<and>
         name_matches env ''OPTIFINE''
           \<lparr>name = ''OptiFine'', version = v, filename = f, installed_at = t\<rparr> \<and>
         \<not> name_matches env ''optic''
           \<lparr>name = ''OptiFine'', version = v, filename = f, installed_at = t\<rparr> \<and>
         \<not> name_matches env ''opti fine''
           \<lparr>name = ''OptiFine'', version = v, filename = f, installed_at = t\<rparr> \<and>
         \<not> name_matches env ''opti''
           \<lparr>name = ''Sodium'', version = v, filename = f, installed_at = t\<rparr> \<and>
         \<not> str_in ''opti'' ''OptiFine'' \<and> ''opti'' \<noteq> ''OptiFine''"
proof -
  have a: "name_matches env q i \<longleftrightarrow>
             (\<exists>ps ss. str_lower env (name i) = ps @ str_lower env q @ ss)"
    by (rule name_matches_sublist)
  have b: "find_matches env q d =
             filter (\<lambda>(pid, i). \<exists>ps ss. str_lower env (name i) = ps @ str_lower env q @ ss) d"
    by (simp add: find_matches_def name_matches_sublist)
  have e0: "str_lower env [] = []"
    using assms[of "[]"] by (simp add: is_ascii_def ascii_lower_def)
  have g: "find_matches env [] d = d"
    by (induction d) (auto simp: find_matches_def name_matches_def e0 str_in_sublist)
  have h: "is_ascii q \<and> is_ascii (name i) \<longrightarrow>
            (name_matches env q i \<longleftrightarrow>
               (\<exists>ps ss. ascii_lower (name i) = ps @ ascii_lower q @ ss))"
    by (simp add: a assms)
  have l1: "str_lower env ''opti'' = ''opti''"
    and l2: "str_lower env ''OptiFine'' = ''optifine''"
    and l3: "str_lower env ''OPTIFINE'' = ''optifine''"
    and l4: "str_lower env ''optic'' = ''optic''"
    and l5: "str_lower env ''opti fine'' = ''opti fine''"
    and l6: "str_lower env ''Sodium'' = ''sodium''"
    by (simp_all add: assms is_ascii_def
          ascii_lower_def ascii_lower_char_def ascii_uppercase_def ascii_lowercase_def)
  have c: "name_matches env ''opti''
             \<lparr>name = ''OptiFine'', version = v, filename = f, installed_at = t\<rparr>"
    and c2: "name_matches env ''OPTIFINE''
             \<lparr>name = ''OptiFine'', version = v, filename = f, installed_at = t\<rparr>"
    and n1: "\<not> name_matches env ''optic''
             \<lparr>name = ''OptiFine'', version = v, filename = f, installed_at = t\<rparr>"
    and n2: "\<not> name_matches env ''opti fine''
             \<lparr>name = ''OptiFine'', version = v, filename = f, installed_at = t\<rparr>"
    and n3: "\<not> name_matches env ''opti''
             \<lparr>name = ''Sodium'', version = v, filename = f, installed_at = t\<rparr>"
    by (simp_all add: name_matches_def l1 l2 l3 l4 l5 l6)
  have e: "\<not> str_in ''opti'' ''OptiFine''" by simp
  from a b g h c c2 n1 n2 n3 e show ?thesis by simp
qed

theorem name_filter_is_lowercase_substring_witness:
  "str_lower (ex_env ''2.0'' Completed False) ''OptiFine'' = ascii_lower ''OptiFine'' \<and>
   str_lower (ex_env ''2.0'' Completed False) ''optic'' = ascii_lower ''optic'' \<and>
   name_matches (ex_env ''2.0'' Completed False) ''opti''
     \<lparr>name = ''OptiFine'', version = ''1'', filename = ''o.jar'', installed_at = ''t''\<rparr> \<and>
   \<not> name_matches (ex_env ''2.0'' Completed False) ''optic''
     \<lparr>name = ''OptiFine'', version = ''1'', filename = ''o.jar'', installed_at = ''t''\<rparr> \<and>
   find_matches (ex_env ''2.0'' Completed False) ''bright'' (mods ex_ledger @ shaderpacks ex_ledger)
     = [(''shd9'', ex_shader)] \<and>
   str_lower (ex_env ''2.0'' Completed False) ([CHR 0xC3, CHR 0x89] @ ''cole Mod'')
     = [CHR 0xC3, CHR 0xA9] @ ''cole mod'' \<and>
   name_matches (ex_env ''2.0'' Completed False) ([CHR 0xC3, CHR 0xA9] @ ''co'')
     \<lparr>name = [CHR 0xC3, CHR 0x89] @ ''cole Mod'', version = ''1'', filename = ''e.jar'',
      installed_at = ''t''\<rparr>"
proof -
  let ?env = "ex_env ''2.0'' Completed False"
  have low: "\<And>s. is_ascii s \<Longrightarrow> str_lower ?env s = ascii_lower s"
    by (simp add: ex_env_def ex_lower_ascii)
  from name_filter_is_lowercase_substring[OF low, of "[]" ex_info "[]" "''1''" "''o.jar''" "''t''"]
  have c: "name_matches ?env ''opti''
             \<lparr>name = ''OptiFine'', version = ''1'', filename = ''o.jar'', installed_at = ''t''\<rparr>"
    and n: "\<not> name_matches ?env ''optic''
             \<lparr>name = ''OptiFine'', version = ''1'', filename = ''o.jar'', installed_at = ''t''\<rparr>"
    by blast+
  have a: "str_lower ?env ''OptiFine'' = ascii_lower ''OptiFine''"
    and b: "str_lower ?env ''optic'' = ascii_lower ''optic''"
    by (simp_all add: low is_ascii_def)
  have m: "find_matches ?env ''bright'' (mods ex_ledger @ shaderpacks ex_ledger)
             = [(''shd9'', ex_shader)]"
    by (simp add: find_matches_def name_matches_def ex_ledger_def ex_info_def ex_shader_def
          ex_env_def lower_defs)
  have u: "str_lower ?env ([CHR 0xC3, CHR 0x89] @ ''cole Mod'') = [CHR 0xC3, CHR 0xA9] @ ''cole mod''"
    by (simp add: ex_env_def lower_defs)
  have e: "name_matches ?env ([CHR 0xC3, CHR 0xA9] @ ''co'')
             \<lparr>name = [CHR 0xC3, CHR 0x89] @ ''cole Mod'', version = ''1'', filename = ''e.jar'',
              installed_at = ''t''\<rparr>"
    by (simp add: name_matches_def ex_env_def lower_defs)
  show ?thesis by (intro conjI a b c n m u e)
qed

subsection \<open>C9: loading a missing or unparsable ledger\<close>

text \<open>
  C9 says that loading gives the structure of three empty buckets whenever the
  configuration file is missing or its contents fail to parse as JSON. That is so for a
  missing file and for contents on which \<^verbatim>\<open>json.load\<close> raises \<^verbatim>\<open>JSONDecodeError\<close>,
  which is warned about. It is not so for contents on which reading raises something else:
  brackets nested too deep (\<^verbatim>\<open>RecursionError\<close>) or bytes that are no text
  (\<^verbatim>\<open>UnicodeDecodeError\<close>). There the exception leaves \<^verbatim>\<open>_load_installed_content\<close> and
  the constructor, no ledger is set up and no warning is printed.
\<close>

theorem load_raises_on_other_corruption:
  "load_installed_content (w\<lparr>config := Raises RecursionError\<rparr>) = Inl RecursionError \<and>
   init (w\<lparr>config := Raises RecursionError\<rparr>) = Inl RecursionError \<and>
   load_installed_content (w\<lparr>config := Raises UnicodeDecodeError\<rparr>) = Inl UnicodeDecodeError \<and>
   init (w\<lparr>config := Raises UnicodeDecodeError\<rparr>) = Inl UnicodeDecodeError \<and>
   init (w\<lparr>config := Raises JSONDecodeError\<rparr>) =
     Inr (w\<lparr>config := Raises JSONDecodeError,
            installed_content := \<lparr>mods = [], resourcepacks = [], shaderpacks = []\<rparr>,
            trace := trace w @ [Print ConfigCorrupted]\<rparr>) \<and>
   init (w\<lparr>config := Missing\<rparr>) =
     Inr (w\<lparr>config := Missing,
            installed_content := \<lparr>mods = [], resourcepacks = [], shaderpacks = []\<rparr>\<rparr>)"
  by (simp add: load_installed_content_def init_def default_structure_def print_def emit_def)

subsection \<open>C10: the other two buckets\<close>

text \<open>
  C10: \<^verbatim>\<open>install\<close>, \<^verbatim>\<open>uninstall\<close> and \<^verbatim>\<open>update\<close> called for the content type \<open>ct\<close>
  leave the bucket of every other content type as it was.
\<close>

theorem other_buckets_unchanged:
  assumes "ct' \<noteq> ct"
  shows "get_content_dict (installed_content (install env pid ct gv w)) ct' =
           get_content_dict (installed_content w) ct' \<and>
         get_content_dict (installed_content (uninstall env q ct w)) ct' =
           get_content_dict (installed_content w) ct' \<and>
         get_content_dict (installed_content (update env (Some ct) nq w)) ct' =
           get_content_dict (installed_content w) ct'"
  by (simp add: install_other_bucket[OF assms] uninstall_other_bucket[OF assms]
        update_type_other_bucket[OF assms])

theorem other_buckets_unchanged_witness:
  "SHADER_PACK \<noteq> MOD \<and>
   get_content_dict
     (installed_content (install (ex_env ''2.0'' Completed False) ''proj123'' MOD None (ex_world {})))
     SHADER_PACK = [(''shd9'', ex_shader)] \<and>
   get_content_dict
     (installed_content (uninstall (ex_env ''2.0'' Completed False) ''sample'' MOD (ex_world {})))
     SHADER_PACK = [(''shd9'', ex_shader)] \<and>
   get_content_dict
     (installed_content (update (ex_env ''2.0'' Completed False) (Some MOD) None (ex_world {})))
     SHADER_PACK = [(''shd9'', ex_shader)]"
proof -
  have n: "SHADER_PACK \<noteq> MOD" by simp
  from other_buckets_unchanged[OF n, of "ex_env ''2.0'' Completed False" "''proj123''" None
         "ex_world {}" "''sample''" None]
  show ?thesis by (simp add: ex_world_def ex_ledger_def)
qed

end
